theory Spec2Isabelle
  imports Complex_Main
begin

section \<open>Featured recipe 6: a signal drawn with vispy.gloo\<close>

text \<open>
  The notebook \<^verbatim>\<open>featured/06_vispy.ipynb\<close> is a script of nine code cells: it writes two
  GLSL shaders as string literals, builds a \<^verbatim>\<open>gloo.Program\<close> from them, binds one array
  to the attribute \<^verbatim>\<open>a_position\<close>, and registers the two callbacks \<^verbatim>\<open>on_resize\<close> and
  \<^verbatim>\<open>on_draw\<close>. Each cell is embedded as a function on the state it changes; every
  exception is a value of \<open>error\<close>.
\<close>

subsection \<open>Errors\<close>

datatype error = CompileError | RuntimeError | ValueError | TypeError | AttributeError

subsection \<open>The shader sources (cells 3 and 4)\<close>

text \<open>
  The two triple-quoted literals, character for character; each starts and ends with a
  line feed.
\<close>

definition vertex :: string where
  "vertex = ''\<newline>attribute vec2 a_position;\<newline>void main (void)\<newline>{\<newline>    gl_Position = vec4(a_position, 0.0, 1.0);\<newline>}\<newline>''"

definition fragment :: string where
  "fragment = ''\<newline>void main()\<newline>{\<newline>    gl_FragColor = vec4(0.0, 0.0, 0.0, 1.0);\<newline>}\<newline>''"

subsection \<open>The attributes a shader text declares\<close>

text \<open>
  A shader text is cut into words (runs of letters, digits and underscores) and single
  punctuation characters; white space separates. An attribute declaration is the word
  \<^verbatim>\<open>attribute\<close>, a type, a name and a semicolon.
\<close>

definition is_ident_char :: "char \<Rightarrow> bool" where
  "is_ident_char c =
     List.member ''abcdefghijklmnopqrstuvwxyzABCDEFGHIJKLMNOPQRSTUVWXYZ0123456789_'' c"

definition is_space :: "char \<Rightarrow> bool" where
  "is_space c = List.member [CHR '' '', CHR 0x0A, CHR 0x09, CHR 0x0D] c"

fun tokens_from :: "string \<Rightarrow> string \<Rightarrow> string list" where
  "tokens_from w [] = (if w = [] then [] else [rev w])"
| "tokens_from w (c # cs) =
     (if is_ident_char c then tokens_from (c # w) cs
      else (if w = [] then [] else [rev w]) @ (if is_space c then [] else [[c]])
           @ tokens_from [] cs)"

fun attribute_decls :: "string list \<Rightarrow> (string \<times> string) list" where
  "attribute_decls (a # t # n # s # rest) =
     (if a = ''attribute'' \<and> s = '';'' then (n, t) # attribute_decls rest
      else attribute_decls (t # n # s # rest))"
| "attribute_decls _ = []"

text \<open>The declared attributes of a shader text, each as (name, type).\<close>

definition attributes :: "string \<Rightarrow> (string \<times> string) list" where
  "attributes src = attribute_decls (tokens_from [] src)"

text \<open>The number of float components of a GLSL attribute type.\<close>

definition components :: "string \<Rightarrow> nat option" where
  "components ty =
     (if ty = ''float'' then Some 1 else if ty = ''vec2'' then Some 2
      else if ty = ''vec3'' then Some 3 else if ty = ''vec4'' then Some 4 else None)"

subsection \<open>The two \<^verbatim>\<open>main\<close> functions\<close>

text \<open>
  A GLSL vector is the list of its components, a float a list of one. The constructor
  \<^verbatim>\<open>vec4(...)\<close> lays the components of its arguments side by side and is ill-typed
  unless they are four.
\<close>

type_synonym vec = "real list"

definition vec4 :: "vec list \<Rightarrow> vec option" where
  "vec4 args = (let cs = concat args in if length cs = 4 then Some cs else None)"

text \<open>\<^verbatim>\<open>gl_Position = vec4(a_position, 0.0, 1.0);\<close>\<close>

definition vertex_main :: "vec \<Rightarrow> vec option" where
  "vertex_main a_position = vec4 [a_position, [0], [1]]"

text \<open>\<^verbatim>\<open>gl_FragColor = vec4(0.0, 0.0, 0.0, 1.0);\<close>\<close>

definition fragment_main :: "vec option" where
  "fragment_main = vec4 [[0], [0], [0], [1]]"

text \<open>The vertex stage runs \<^verbatim>\<open>main\<close> once per vertex, in buffer order.\<close>

fun vertex_stage :: "vec list \<Rightarrow> vec list option" where
  "vertex_stage [] = Some []"
| "vertex_stage (v # vs) =
     (case vertex_main v of
        None \<Rightarrow> None
      | Some p \<Rightarrow> (case vertex_stage vs of None \<Rightarrow> None | Some ps \<Rightarrow> Some (p # ps)))"

subsection \<open>The NumPy calls of cell 6\<close>

text \<open>
  Floats are reals; \<open>rnd\<close> is the rounding applied to the exact result of each
  arithmetic operation (the identity for exact arithmetic). What is used of it are
  properties of rounding to the nearest binary64 number: it is monotone, leaves \<open>0\<close>,
  \<open>-1\<close>, \<open>1\<close> and \<open>2\<close> alone, and between \<open>1 / 1024\<close> and \<open>2\<close> its relative error
  is at most \<open>1 / 2 ^ 53\<close>.
\<close>

definition float_rounding :: "(real \<Rightarrow> real) \<Rightarrow> bool" where
  "float_rounding rnd \<longleftrightarrow>
     mono rnd \<and> rnd 0 = 0 \<and> rnd (- 1) = - 1 \<and> rnd 1 = 1 \<and> rnd 2 = 2 \<and>
     (\<forall>x. 1 / 1024 \<le> x \<and> x \<le> 2 \<longrightarrow> \<bar>rnd x - x\<bar> \<le> x / 2 ^ 53)"

text \<open>
  \<^verbatim>\<open>np.linspace(start, stop, num)\<close>: no sample for \<open>num = 0\<close>, \<open>start\<close> alone for
  \<open>num = 1\<close>, and otherwise \<^verbatim>\<open>arange(0, num) * step + start\<close> with
  \<^verbatim>\<open>step = (stop - start) / (num - 1)\<close> and the last sample set to \<open>stop\<close>.
\<close>

definition linspace :: "(real \<Rightarrow> real) \<Rightarrow> real \<Rightarrow> real \<Rightarrow> nat \<Rightarrow> real list" where
  "linspace rnd start stop num =
     (if num = 0 then []
      else if num = 1 then [start]
      else let step = rnd (rnd (stop - start) / real (num - 1))
           in map (\<lambda>i. rnd (rnd (real i * step) + start)) [0..<num - 1] @ [stop])"

text \<open>
  \<^verbatim>\<open>np.random.uniform(low, high, n)\<close> is not a function of its arguments: the draw is
  an input of the model, a list \<open>ys\<close> of \<open>n\<close> samples of the half-open interval.
\<close>

definition uniform_sample :: "real \<Rightarrow> real \<Rightarrow> nat \<Rightarrow> real list \<Rightarrow> bool" where
  "uniform_sample low high n ys \<longleftrightarrow>
     length ys = n \<and> list_all (\<lambda>y. low \<le> y \<and> y < high) ys"

text \<open>
  \<^verbatim>\<open>np.c_[xs, ys]\<close> on two one-dimensional arrays: the array whose rows are the pairs,
  a \<^verbatim>\<open>ValueError\<close> when the lengths differ.
\<close>

definition np_c :: "real list \<Rightarrow> real list \<Rightarrow> error + real list list" where
  "np_c xs ys =
     (if length xs = length ys then Inr (map2 (\<lambda>x y. [x, y]) xs ys) else Inl ValueError)"

text \<open>The shape \<open>(n, k)\<close> of a two-dimensional array given as the list of its rows.\<close>

definition has_shape :: "real list list \<Rightarrow> nat \<Rightarrow> nat \<Rightarrow> bool" where
  "has_shape arr n k \<longleftrightarrow> length arr = n \<and> list_all (\<lambda>row. length row = k) arr"

subsection \<open>Primitive assembly\<close>

text \<open>
  The primitive types the notebook names. A primitive is the list of its vertices:
  \<^verbatim>\<open>line_strip\<close> runs through all vertices and draws a segment from one point to the
  next; \<^verbatim>\<open>triangles\<close> makes one triangle of every triplet of points.
\<close>

datatype topology = Points | LineStrip | Triangles

fun line_strip :: "'a list \<Rightarrow> 'a list list" where
  "line_strip (a # b # vs) = [a, b] # line_strip (b # vs)"
| "line_strip _ = []"

fun triangles :: "'a list \<Rightarrow> 'a list list" where
  "triangles (a # b # c # vs) = [a, b, c] # triangles vs"
| "triangles _ = []"

fun assemble :: "topology \<Rightarrow> 'a list \<Rightarrow> 'a list list" where
  "assemble Points vs = map (\<lambda>v. [v]) vs"
| "assemble LineStrip vs = line_strip vs"
| "assemble Triangles vs = triangles vs"

subsection \<open>The state of the graphics binding\<close>

type_synonym rgba = "real \<times> real \<times> real \<times> real"

datatype gl_command =
    SetViewport int int int int
  | Clear rgba
  | DrawArrays topology nat

text \<open>
  The context: the viewport, the colour of the last clear, the primitives drawn since
  that clear, and every command issued so far, oldest first.
\<close>

record gl_state =
  viewport :: "int \<times> int \<times> int \<times> int"
  background :: rgba
  drawn :: "vec list list"
  commands :: "gl_command list"

text \<open>A program: its two source texts and the arrays bound to its attributes by name.\<close>

record gloo_program =
  vert_src :: string
  frag_src :: string
  attribs :: "string \<rightharpoonup> real list list"

text \<open>
  Modelled from the spec: the three checks of the graphics binding, whose code is not
  part of the repository (the notebook only calls it). Compilation fails with a
  \<^verbatim>\<open>CompileError\<close> if the syntax of a source text is invalid, where \<open>valid\<close> is the
  syntax check of the GLSL compiler behind the binding. The rows of a bound array have
  the number of components the vertex stage consumes per invocation; no partial binding
  is valid. A draw call fails with a \<^verbatim>\<open>RuntimeError\<close> if any attribute referenced by
  the shaders is unbound.
\<close>

definition compile_check :: "(string \<Rightarrow> bool) \<Rightarrow> string \<Rightarrow> string \<Rightarrow> error option" where
  "compile_check valid vert frag = (if valid vert \<and> valid frag then None else Some CompileError)"

definition binding_check :: "string \<Rightarrow> string \<Rightarrow> real list list \<Rightarrow> error option" where
  "binding_check vert name data =
     (case map_of (attributes vert) name of
        None \<Rightarrow> Some ValueError
      | Some ty \<Rightarrow>
          (case components ty of
             None \<Rightarrow> Some ValueError
           | Some k \<Rightarrow>
               if list_all (\<lambda>row. length row = k) data then None else Some ValueError))"

definition draw_check :: "gloo_program \<Rightarrow> error option" where
  "draw_check p =
     (if list_all (\<lambda>a. attribs p a \<noteq> None) (map fst (attributes (vert_src p)))
      then None else Some RuntimeError)"

text \<open>
  \<^verbatim>\<open>gloo.Program(vert, frag)\<close>: a program is created with the vertex and the fragment
  shader, with nothing bound yet.
\<close>

definition Program :: "(string \<Rightarrow> bool) \<Rightarrow> string \<Rightarrow> string \<Rightarrow> error + gloo_program" where
  "Program valid vert frag =
     (case compile_check valid vert frag of
        Some e \<Rightarrow> Inl e
      | None \<Rightarrow> Inr \<lparr>vert_src = vert, frag_src = frag, attribs = Map.empty\<rparr>)"

text \<open>
  \<^verbatim>\<open>program[name] = data\<close>: a variable declared in the shaders is set; for an attribute
  the value is a two-dimensional array in which every line holds the components of one
  data point.
\<close>

definition setitem :: "gloo_program \<Rightarrow> string \<Rightarrow> real list list \<Rightarrow> error + gloo_program" where
  "setitem p name data =
     (case binding_check (vert_src p) name data of
        Some e \<Rightarrow> Inl e
      | None \<Rightarrow> Inr (p\<lparr>attribs := (attribs p)(name \<mapsto> data)\<rparr>))"

text \<open>\<^verbatim>\<open>gloo.set_viewport(x, y, w, h)\<close> and \<^verbatim>\<open>gloo.clear(color)\<close>.\<close>

definition set_viewport :: "int \<Rightarrow> int \<Rightarrow> int \<Rightarrow> int \<Rightarrow> gl_state \<Rightarrow> gl_state" where
  "set_viewport x y w h g =
     g\<lparr>viewport := (x, y, w, h), commands := commands g @ [SetViewport x y w h]\<rparr>"

definition clear :: "rgba \<Rightarrow> gl_state \<Rightarrow> gl_state" where
  "clear color g = g\<lparr>background := color, drawn := [], commands := commands g @ [Clear color]\<rparr>"

text \<open>
  \<^verbatim>\<open>program.draw(mode)\<close> renders the data under the primitive type: the vertex stage of
  the notebook's vertex shader runs over the rows bound to \<^verbatim>\<open>a_position\<close>, and the
  positions it returns are assembled into primitives. A row that is not a \<^verbatim>\<open>vec2\<close>
  leaves the vertex stage without a result; the binding check rules that out.
\<close>

definition draw :: "topology \<Rightarrow> gloo_program \<Rightarrow> gl_state \<Rightarrow> error + gl_state" where
  "draw mode p g =
     (case draw_check p of
        Some e \<Rightarrow> Inl e
      | None \<Rightarrow>
          (case attribs p ''a_position'' of
             None \<Rightarrow> Inl RuntimeError
           | Some rows \<Rightarrow>
               (case vertex_stage rows of
                  None \<Rightarrow> Inl RuntimeError
                | Some ps \<Rightarrow>
                    Inr (g\<lparr>drawn := drawn g @ assemble mode ps,
                           commands := commands g @ [DrawArrays mode (length rows)]\<rparr>))))"

subsection \<open>The script\<close>

text \<open>The globals the callbacks read and the context they act on.\<close>

record world =
  program :: gloo_program
  gl :: gl_state

text \<open>
  Cells 5 and 6: \<^verbatim>\<open>program = gloo.Program(vertex, fragment)\<close>, then
  \<^verbatim>\<open>program['a_position'] = np.c_[np.linspace(-1.0, +1.0, 1000),
  np.random.uniform(-0.5, +0.5, 1000)]\<close>, where \<open>ys\<close> is what the random draw returned
  and \<open>g0\<close> the context the canvas of cell 2 opened.
\<close>

definition a_position_data :: "(real \<Rightarrow> real) \<Rightarrow> real list \<Rightarrow> error + real list list" where
  "a_position_data rnd ys = np_c (linspace rnd (- 1) 1 1000) ys"

definition notebook ::
  "(string \<Rightarrow> bool) \<Rightarrow> (real \<Rightarrow> real) \<Rightarrow> real list \<Rightarrow> gl_state \<Rightarrow> error + world" where
  "notebook valid rnd ys g0 =
     (case Program valid vertex fragment of
        Inl e \<Rightarrow> Inl e
      | Inr p \<Rightarrow>
          (case a_position_data rnd ys of
             Inl e \<Rightarrow> Inl e
           | Inr arr \<Rightarrow>
               (case setitem p ''a_position'' arr of
                  Inl e \<Rightarrow> Inl e
                | Inr p' \<Rightarrow> Inr \<lparr>program = p', gl = g0\<rparr>)))"

text \<open>
  What a backend can pass to a callback: a number, or an event. Only a resize event
  has a \<^verbatim>\<open>size\<close>, the pair of the new width and height.
\<close>

datatype event = ResizeEvent "int \<times> int" | DrawEvent

datatype pyval = IntV int | EventV event

text \<open>
  Cell 7: \<^verbatim>\<open>def on_resize(event): gloo.set_viewport(0, 0, *event.size)\<close>. The function
  has one parameter: a call with any other number of arguments is a \<^verbatim>\<open>TypeError\<close>,
  and an argument without a \<^verbatim>\<open>size\<close> an \<^verbatim>\<open>AttributeError\<close>.
\<close>

fun on_resize :: "pyval list \<Rightarrow> world \<Rightarrow> error + world" where
  "on_resize [EventV (ResizeEvent (width, height))] w =
     Inr (w\<lparr>gl := set_viewport 0 0 width height (gl w)\<rparr>)"
| "on_resize [EventV DrawEvent] w = Inl AttributeError"
| "on_resize [IntV n] w = Inl AttributeError"
| "on_resize args w = Inl TypeError"

text \<open>
  Cell 8: \<^verbatim>\<open>def on_draw(event): gloo.clear((1,1,1,1)); program.draw('line_strip')\<close>. The
  one parameter is not read.
\<close>

fun on_draw :: "pyval list \<Rightarrow> world \<Rightarrow> error + world" where
  "on_draw [event] w =
     (case draw LineStrip (program w) (clear (1, 1, 1, 1) (gl w)) of
        Inl e \<Rightarrow> Inl e
      | Inr g \<Rightarrow> Inr (w\<lparr>gl := g\<rparr>))"
| "on_draw args w = Inl TypeError"

text \<open>
  Cell 9: \<^verbatim>\<open>c.show(); app.run()\<close>. The canvas calls the connected callback of each
  event with the event as its only argument, in the order the events arrive; an
  exception ends the run.
\<close>

fun dispatch :: "event \<Rightarrow> world \<Rightarrow> error + world" where
  "dispatch (ResizeEvent sz) w = on_resize [EventV (ResizeEvent sz)] w"
| "dispatch DrawEvent w = on_draw [EventV DrawEvent] w"

fun run :: "event list \<Rightarrow> world \<Rightarrow> error + world" where
  "run [] w = Inr w"
| "run (e # es) w = (case dispatch e w of Inl err \<Rightarrow> Inl err | Inr w' \<Rightarrow> run es w')"

subsection \<open>Predicates of the properties\<close>

text \<open>
  A program compiled from the notebook's vertex shader whose attribute \<^verbatim>\<open>a_position\<close>
  is bound to the array \<open>arr\<close> of two-component rows.
\<close>

definition bound_to :: "gloo_program \<Rightarrow> real list list \<Rightarrow> bool" where
  "bound_to p arr \<longleftrightarrow>
     vert_src p = vertex \<and> attribs p ''a_position'' = Some arr \<and>
     list_all (\<lambda>row. length row = 2) arr"

text \<open>
  Both coordinates of every row lie in the normalized device coordinate space
  \<open>[-1, 1]\<close>.
\<close>

definition in_ndc :: "real list list \<Rightarrow> bool" where
  "in_ndc arr \<longleftrightarrow>
     list_all (\<lambda>row. length row = 2 \<and> list_all (\<lambda>c. - 1 \<le> c \<and> c \<le> 1) row) arr"

text \<open>
  In a command history, every draw call comes directly after a clear to opaque white.
\<close>

fun draws_follow_clear :: "gl_command list \<Rightarrow> bool" where
  "draws_follow_clear [] = True"
| "draws_follow_clear (Clear color # DrawArrays mode n # cs) =
     (color = (1, 1, 1, 1) \<and> draws_follow_clear cs)"
| "draws_follow_clear (DrawArrays mode n # cs) = False"
| "draws_follow_clear (c # cs) = draws_follow_clear cs"

text \<open>An example context: the canvas as it opens, with no command issued yet.\<close>

definition blank_context :: gl_state where
  "blank_context = \<lparr>viewport = (0, 0, 0, 0), background = (0, 0, 0, 0), drawn = [], commands = []\<rparr>"

text \<open>An example state: a program of the notebook with three vertices bound.\<close>

definition example_world :: world where
  "example_world =
     \<lparr>program = \<lparr>vert_src = vertex, frag_src = fragment,
                  attribs = [''a_position'' \<mapsto> [[0, 0], [1 / 2, 1], [1, 0]]]\<rparr>,
      gl = blank_context\<rparr>"

section \<open>Properties\<close>

subsection \<open>Facts about the shaders\<close>

lemma attributes_vertex: "attributes vertex = [(''a_position'', ''vec2'')]"
  by (simp add: attributes_def vertex_def is_ident_char_def is_space_def)

lemma attributes_fragment: "attributes fragment = []"
  by (simp add: attributes_def fragment_def is_ident_char_def is_space_def)

text \<open>The fragment stage colours every pixel opaque black.\<close>

lemma fragment_main_black: "fragment_main = Some [0, 0, 0, 1]"
  by (simp add: fragment_main_def vec4_def)

subsection \<open>Facts about the array, the callbacks and the command history\<close>

lemma length_linspace: "length (linspace rnd start stop num) = num"
  by (simp add: linspace_def Let_def)

lemma rounding_zero: "float_rounding rnd \<Longrightarrow> rnd 0 = 0"
  by (simp add: float_rounding_def)

lemma rounding_upper:
  assumes r: "float_rounding rnd" and x: "1 / 1024 \<le> x" "x \<le> 2"
  shows "rnd x \<le> x * (1 + 1 / 2 ^ 53)"
proof -
  from r x have "\<bar>rnd x - x\<bar> \<le> x / 2 ^ 53" unfolding float_rounding_def by blast
  then have "rnd x - x \<le> x / 2 ^ 53" by (rule abs_le_D1)
  then have "rnd x \<le> x + x / 2 ^ 53" by linarith
  also have "x + x / 2 ^ 53 = x * (1 + 1 / 2 ^ 53)"
    by (simp only: distrib_left mult_1_right times_divide_eq_right)
  finally show ?thesis .
qed

lemma linspace_step_bounds:
  assumes r: "float_rounding rnd"
  defines "step \<equiv> rnd (rnd (1 - (- 1)) / real (1000 - 1))"
  shows "0 \<le> step" and "step \<le> 2 / 999 * (1 + 1 / 2 ^ 53)"
proof -
  from r have m: "mono rnd" and two: "rnd 2 = 2" by (simp_all add: float_rounding_def)
  have s: "step = rnd (2 / 999)" by (simp add: step_def two)
  have "rnd 0 \<le> rnd (2 / 999)" using m by (rule monoD) simp
  then show "0 \<le> step" by (simp add: s rounding_zero [OF r])
  show "step \<le> 2 / 999 * (1 + 1 / 2 ^ 53)"
    unfolding s by (rule rounding_upper [OF r]) simp_all
qed

lemma linspace_sample_bounds:
  assumes r: "float_rounding rnd" and i: "i < 999"
  defines "step \<equiv> rnd (rnd (1 - (- 1)) / real (1000 - 1))"
  shows "- 1 \<le> rnd (rnd (real i * step) + - 1) \<and> rnd (rnd (real i * step) + - 1) \<le> 1"
proof -
  from r have m: "mono rnd" and one: "rnd 1 = 1" and mone: "rnd (- 1) = - 1"
    by (simp_all add: float_rounding_def)
  have s0: "0 \<le> step" and s1: "step \<le> 2 / 999 * (1 + 1 / 2 ^ 53)"
    unfolding step_def using linspace_step_bounds [OF r] by simp_all
  define u :: real where "u = 998 * (2 / 999 * (1 + 1 / 2 ^ 53))"
  have p0: "0 \<le> real i * step" using s0 by simp
  have "rnd 0 \<le> rnd (real i * step)" using m p0 by (rule monoD)
  then have q0: "0 \<le> rnd (real i * step)" by (simp add: rounding_zero [OF r])
  have "real i \<le> 998" using i by simp
  then have "real i * step \<le> 998 * step" using s0 by (rule mult_right_mono)
  also have "\<dots> \<le> u" using s1 by (simp add: u_def)
  finally have p1: "real i * step \<le> u" .
  have "rnd (real i * step) \<le> rnd u" using m p1 by (rule monoD)
  also have "rnd u \<le> u * (1 + 1 / 2 ^ 53)"
    by (rule rounding_upper [OF r]) (simp_all add: u_def)
  also have "\<dots> \<le> 2" by (simp add: u_def)
  finally have q1: "rnd (real i * step) \<le> 2" .
  have "rnd (- 1) \<le> rnd (rnd (real i * step) + - 1)" using m by (rule monoD) (use q0 in simp)
  moreover have "rnd (rnd (real i * step) + - 1) \<le> rnd 1" using m by (rule monoD) (use q1 in simp)
  ultimately show ?thesis by (simp add: one mone)
qed

lemma linspace_in_range:
  assumes r: "float_rounding rnd"
  shows "list_all (\<lambda>x. - 1 \<le> x \<and> x \<le> 1) (linspace rnd (- 1) 1 1000)"
proof -
  have "\<And>i. i < 999 \<Longrightarrow> - 1 \<le> rnd (rnd (real i * rnd (rnd (1 - (- 1)) / real (1000 - 1))) + - 1)
      \<and> rnd (rnd (real i * rnd (rnd (1 - (- 1)) / real (1000 - 1))) + - 1) \<le> 1"
    using linspace_sample_bounds [OF r] by blast
  then show ?thesis
    by (simp add: linspace_def Let_def list_all_iff)
qed


lemma np_c_shape:
  "length xs = length ys \<Longrightarrow> \<exists>arr. np_c xs ys = Inr arr \<and> has_shape arr (length xs) 2"
  by (simp add: np_c_def has_shape_def list_all_iff) (auto simp: set_zip)

lemma vertex_stage_rows:
  "list_all (\<lambda>row. length row = 2) rows \<Longrightarrow>
   vertex_stage rows = Some (map (\<lambda>row. row @ [0, 1]) rows)"
  by (induction rows) (simp_all add: vertex_main_def vec4_def)

lemma draw_bound:
  "bound_to p arr \<Longrightarrow>
   draw mode p g =
     Inr (g\<lparr>drawn := drawn g @ assemble mode (map (\<lambda>row. row @ [0, 1]) arr),
            commands := commands g @ [DrawArrays mode (length arr)]\<rparr>)"
  by (simp add: bound_to_def draw_def draw_check_def attributes_vertex vertex_stage_rows)

lemma on_draw_bound:
  "bound_to (program w) arr \<Longrightarrow>
   on_draw [ev] w =
     Inr (w\<lparr>gl := (gl w)\<lparr>background := (1, 1, 1, 1),
                 drawn := line_strip (map (\<lambda>row. row @ [0, 1]) arr),
                 commands := commands (gl w) @ [Clear (1, 1, 1, 1), DrawArrays LineStrip (length arr)]\<rparr>\<rparr>)"
  by (simp add: draw_bound clear_def)

lemma notebook_runs:
  assumes v: "valid vertex" "valid fragment" and n: "length ys = 1000"
  shows "\<exists>arr. a_position_data rnd ys = Inr arr \<and> has_shape arr 1000 2 \<and>
           notebook valid rnd ys g0 =
             Inr \<lparr>program = \<lparr>vert_src = vertex, frag_src = fragment,
                               attribs = [''a_position'' \<mapsto> arr]\<rparr>, gl = g0\<rparr>"
proof -
  have "length (linspace rnd (- 1) 1 1000) = length ys" by (simp add: length_linspace n)
  from np_c_shape [OF this] obtain arr
    where a: "a_position_data rnd ys = Inr arr" and s: "has_shape arr 1000 2"
    by (auto simp: a_position_data_def length_linspace)
  have "setitem \<lparr>vert_src = vertex, frag_src = fragment, attribs = Map.empty\<rparr> ''a_position'' arr
      = Inr \<lparr>vert_src = vertex, frag_src = fragment, attribs = [''a_position'' \<mapsto> arr]\<rparr>"
    using s
    by (simp add: setitem_def binding_check_def attributes_vertex components_def has_shape_def)
  then show ?thesis using a s v by (simp add: notebook_def Program_def compile_check_def)
qed

lemma dispatch_program:
  "bound_to (program w) arr \<Longrightarrow> \<exists>w'. dispatch e w = Inr w' \<and> program w' = program w"
proof (cases e)
  case (ResizeEvent sz)
  then show ?thesis by (cases sz) simp
next
  case DrawEvent
  assume "bound_to (program w) arr"
  then show ?thesis using DrawEvent by (simp add: draw_bound)
qed

lemma run_program:
  "bound_to (program w) arr \<Longrightarrow> \<exists>w'. run es w = Inr w' \<and> program w' = program w"
proof (induction es arbitrary: w)
  case Nil
  then show ?case by simp
next
  case (Cons e es)
  from dispatch_program [OF Cons.prems] obtain w1
    where d: "dispatch e w = Inr w1" and p: "program w1 = program w" by blast
  from Cons.prems p have "bound_to (program w1) arr" by simp
  from Cons.IH [OF this] d p show ?case by auto
qed


lemma on_resize_arity: "length args \<noteq> 1 \<Longrightarrow> on_resize args w = Inl TypeError"
  by (cases "(args, w)" rule: on_resize.cases) simp_all

lemma on_draw_arity: "length args \<noteq> 1 \<Longrightarrow> on_draw args w = Inl TypeError"
  by (cases "(args, w)" rule: on_draw.cases) simp_all

lemma draws_follow_clear_Clear:
  "draws_follow_clear ds \<Longrightarrow> draws_follow_clear (Clear color # ds)"
  by (cases ds rule: draws_follow_clear.cases) simp_all

lemma draws_follow_clear_append:
  "draws_follow_clear cs \<Longrightarrow> draws_follow_clear ds \<Longrightarrow> draws_follow_clear (cs @ ds)"
  by (induction cs rule: draws_follow_clear.induct) (simp_all add: draws_follow_clear_Clear)

lemma run_append:
  "run (es @ fs) w = (case run es w of Inl err \<Rightarrow> Inl err | Inr w' \<Rightarrow> run fs w')"
  by (induction es arbitrary: w) (simp_all split: sum.splits)

lemma line_strip_nth:
  "line_strip vs = map (\<lambda>i. [vs ! i, vs ! Suc i]) [0..<length vs - 1]"
proof (induction vs rule: line_strip.induct)
  case (1 a b vs)
  have "[0..<Suc (length vs)] = 0 # map Suc [0..<length vs]"
    by (simp add: upt_conv_Cons map_Suc_upt del: upt_Suc)
  with 1 show ?case by (simp add: comp_def del: upt_Suc)
qed simp_all

lemma dispatch_history:
  assumes b: "bound_to (program w) arr" and h: "draws_follow_clear (commands (gl w))"
  shows "\<exists>w'. dispatch e w = Inr w' \<and> program w' = program w \<and>
           draws_follow_clear (commands (gl w'))"
proof (cases e)
  case (ResizeEvent sz)
  then show ?thesis using h
    by (cases sz) (simp add: set_viewport_def draws_follow_clear_append)
next
  case DrawEvent
  have "draws_follow_clear (commands (gl w) @ [Clear (1, 1, 1, 1), DrawArrays LineStrip (length arr)])"
    using h by (rule draws_follow_clear_append) simp
  then show ?thesis using DrawEvent by (simp add: draw_bound [OF b] clear_def)
qed

lemma run_history:
  "bound_to (program w) arr \<Longrightarrow> draws_follow_clear (commands (gl w)) \<Longrightarrow>
   \<exists>w'. run es w = Inr w' \<and> program w' = program w \<and> draws_follow_clear (commands (gl w'))"
proof (induction es arbitrary: w)
  case Nil
  then show ?case by simp
next
  case (Cons e es)
  from dispatch_history [OF Cons.prems] obtain w1
    where d: "dispatch e w = Inr w1" and p: "program w1 = program w"
      and h: "draws_follow_clear (commands (gl w1))" by blast
  from Cons.prems(1) p have "bound_to (program w1) arr" by simp
  from Cons.IH [OF this h] d p show ?case by auto
qed

lemma np_c_in_ndc:
  assumes xs: "list_all (\<lambda>x. - 1 \<le> x \<and> x \<le> 1) xs" and ys: "list_all (\<lambda>y. - 1 \<le> y \<and> y \<le> 1) ys"
  shows "in_ndc (map2 (\<lambda>x y. [x, y]) xs ys)"
  using assms by (auto simp: in_ndc_def list_all_iff dest: set_zip_leftD set_zip_rightD)

lemma uniform_sample_in_range:
  "uniform_sample (- 1 / 2) (1 / 2) n ys \<Longrightarrow> list_all (\<lambda>y. - 1 \<le> y \<and> y \<le> 1) ys"
  by (auto simp: uniform_sample_def list_all_iff)

lemma notebook_bound:
  assumes "valid vertex" "valid fragment" "length ys = 1000"
  shows "\<exists>arr w. a_position_data rnd ys = Inr arr \<and> has_shape arr 1000 2 \<and>
           notebook valid rnd ys g0 = Inr w \<and> bound_to (program w) arr \<and> gl w = g0 \<and>
           frag_src (program w) = fragment"
proof -
  from notebook_runs [OF assms, of rnd g0] obtain arr
    where a: "a_position_data rnd ys = Inr arr" and s: "has_shape arr 1000 2"
      and n: "notebook valid rnd ys g0 =
             Inr \<lparr>program = \<lparr>vert_src = vertex, frag_src = fragment,
                               attribs = [''a_position'' \<mapsto> arr]\<rparr>, gl = g0\<rparr>"
    by blast
  then show ?thesis by (simp add: bound_to_def has_shape_def)
qed

lemma sample_length: "uniform_sample low high n ys \<Longrightarrow> length ys = n"
  by (simp add: uniform_sample_def)

lemma example_sample: "uniform_sample (- 1 / 2) (1 / 2) 1000 (replicate 1000 0)"
  by (simp add: uniform_sample_def list_all_iff)

lemma setitem_a_position:
  "vert_src p = vertex \<Longrightarrow> list_all (\<lambda>row. length row = 2) arr \<Longrightarrow>
   setitem p ''a_position'' arr = Inr (p\<lparr>attribs := (attribs p)(''a_position'' \<mapsto> arr)\<rparr>)"
  by (simp add: setitem_def binding_check_def attributes_vertex components_def)

lemma setitem_partial:
  "vert_src p = vertex \<Longrightarrow> \<not> list_all (\<lambda>row. length row = 2) arr \<Longrightarrow>
   setitem p ''a_position'' arr = Inl ValueError"
  by (simp add: setitem_def binding_check_def attributes_vertex components_def)

subsection \<open>The claims\<close>

text \<open>
  C1: the constructor of a program fails with a \<^verbatim>\<open>CompileError\<close> if and only if a
  source text has invalid syntax, and a draw call fails with a \<^verbatim>\<open>RuntimeError\<close> if an
  attribute the shaders declare is unbound. With valid sources and \<^verbatim>\<open>a_position\<close>
  bound to rows of two components neither error occurs, for any array, topology and
  context, and in particular in the notebook under every sequence of events.
\<close>

theorem gloo_error_contract:
  "(Program valid vert frag = Inl CompileError \<longleftrightarrow> \<not> (valid vert \<and> valid frag)) \<and>
   (list_ex (\<lambda>a. attribs p a = None) (map fst (attributes (vert_src p))) \<longrightarrow>
      draw mode p g = Inl RuntimeError) \<and>
   (valid vertex \<and> valid fragment \<and> list_all (\<lambda>row. length row = 2) arr \<longrightarrow>
      (\<exists>p1 p2 g'. Program valid vertex fragment = Inr p1 \<and>
         setitem p1 ''a_position'' arr = Inr p2 \<and> draw mode p2 g = Inr g')) \<and>
   (valid vertex \<and> valid fragment \<and> uniform_sample (- 1 / 2) (1 / 2) 1000 ys \<longrightarrow>
      (\<exists>w. notebook valid rnd ys g = Inr w \<and> (\<forall>es. \<exists>w'. run es w = Inr w')))"
proof (intro conjI impI)
  show "Program valid vert frag = Inl CompileError \<longleftrightarrow> \<not> (valid vert \<and> valid frag)"
    by (simp add: Program_def compile_check_def)
next
  assume "list_ex (\<lambda>a. attribs p a = None) (map fst (attributes (vert_src p)))"
  then have "\<not> list_all (\<lambda>a. attribs p a \<noteq> None) (map fst (attributes (vert_src p)))"
    by (auto simp: list_ex_iff list_all_iff)
  then show "draw mode p g = Inl RuntimeError" by (simp add: draw_def draw_check_def)
next
  assume a: "valid vertex \<and> valid fragment \<and> list_all (\<lambda>row. length row = 2) arr"
  define p1 where "p1 = \<lparr>vert_src = vertex, frag_src = fragment, attribs = Map.empty\<rparr>"
  define p2 where "p2 = p1\<lparr>attribs := (attribs p1)(''a_position'' \<mapsto> arr)\<rparr>"
  have 1: "Program valid vertex fragment = Inr p1"
    using a by (simp add: Program_def compile_check_def p1_def)
  have 2: "setitem p1 ''a_position'' arr = Inr p2"
    unfolding p2_def using a by (intro setitem_a_position) (simp_all add: p1_def)
  have "bound_to p2 arr" using a by (simp add: bound_to_def p2_def p1_def)
  then have "\<exists>g'. draw mode p2 g = Inr g'" by (simp add: draw_bound)
  with 1 2 show "\<exists>p1 p2 g'. Program valid vertex fragment = Inr p1 \<and>
      setitem p1 ''a_position'' arr = Inr p2 \<and> draw mode p2 g = Inr g'" by blast
next
  assume a: "valid vertex \<and> valid fragment \<and> uniform_sample (- 1 / 2) (1 / 2) 1000 ys"
  then have v: "valid vertex" "valid fragment" and n: "length ys = 1000"
    by (simp_all add: uniform_sample_def)
  from notebook_bound [OF v n, of rnd g] obtain arr w
    where w: "notebook valid rnd ys g = Inr w" and b: "bound_to (program w) arr" by blast
  have "\<exists>w'. run es w = Inr w'" for es using run_program [OF b, of es] by blast
  with w show "\<exists>w. notebook valid rnd ys g = Inr w \<and> (\<forall>es. \<exists>w'. run es w = Inr w')" by blast
qed

text \<open>
  The contract at an invalid and at a valid pair of sources, at a program with nothing
  bound, and at the notebook.
\<close>

theorem gloo_error_contract_witness:
  "Program (\<lambda>src. False) vertex fragment = Inl CompileError \<and>
   Program (\<lambda>src. True) vertex fragment \<noteq> Inl CompileError \<and>
   draw LineStrip \<lparr>vert_src = vertex, frag_src = fragment, attribs = Map.empty\<rparr> blank_context =
     Inl RuntimeError \<and>
   (\<exists>p1 p2 g'. Program (\<lambda>src. True) vertex fragment = Inr p1 \<and>
      setitem p1 ''a_position'' [[0, 0], [1 / 2, 1], [1, 0]] = Inr p2 \<and>
      draw LineStrip p2 blank_context = Inr g') \<and>
   (\<exists>w. notebook (\<lambda>src. True) (\<lambda>x. x) (replicate 1000 0) blank_context = Inr w \<and>
      (\<forall>es. \<exists>w'. run es w = Inr w'))"
  using
    gloo_error_contract [of "\<lambda>src. False" vertex fragment
      "\<lparr>vert_src = vertex, frag_src = fragment, attribs = Map.empty\<rparr>" LineStrip blank_context
      "[[0, 0], [1 / 2, 1], [1, 0]]" "replicate 1000 0" "\<lambda>x. x"]
    gloo_error_contract [of "\<lambda>src. True" vertex fragment
      "\<lparr>vert_src = vertex, frag_src = fragment, attribs = Map.empty\<rparr>" LineStrip blank_context
      "[[0, 0], [1 / 2, 1], [1, 0]]" "replicate 1000 0" "\<lambda>x. x"]
    example_sample
  by (simp add: attributes_vertex)

text \<open>
  C2: every vertex of the array bound to \<^verbatim>\<open>a_position\<close> has both coordinates in
  \<open>[-1, 1]\<close>: each \<open>x\<close> of \<^verbatim>\<open>linspace(-1.0, +1.0, 1000)\<close>, under any rounding of
  the arithmetic, and each \<open>y\<close> drawn from \<^verbatim>\<open>uniform(-0.5, +0.5, 1000)\<close>.
\<close>

theorem a_position_in_ndc:
  assumes r: "float_rounding rnd" and u: "uniform_sample (- 1 / 2) (1 / 2) 1000 ys"
    and v: "valid vertex" "valid fragment"
  shows "\<exists>arr w. a_position_data rnd ys = Inr arr \<and> notebook valid rnd ys g0 = Inr w \<and>
           attribs (program w) ''a_position'' = Some arr \<and> in_ndc arr \<and>
           list_all (\<lambda>x. - 1 \<le> x \<and> x \<le> 1) (linspace rnd (- 1) 1 1000) \<and>
           list_all (\<lambda>y. - 1 \<le> y \<and> y \<le> 1) ys"
proof -
  from u have n: "length ys = 1000" by (simp add: uniform_sample_def)
  from notebook_bound [OF v n, of rnd g0] obtain arr w
    where a: "a_position_data rnd ys = Inr arr" and w: "notebook valid rnd ys g0 = Inr w"
      and b: "bound_to (program w) arr" by blast
  have xs: "list_all (\<lambda>x. - 1 \<le> x \<and> x \<le> 1) (linspace rnd (- 1) 1 1000)"
    using r by (rule linspace_in_range)
  have ys: "list_all (\<lambda>y. - 1 \<le> y \<and> y \<le> 1) ys" using u by (rule uniform_sample_in_range)
  from a have "arr = map2 (\<lambda>x y. [x, y]) (linspace rnd (- 1) 1 1000) ys"
    by (simp add: a_position_data_def np_c_def length_linspace n)
  then have "in_ndc arr" using np_c_in_ndc [OF xs ys] by simp
  with a w b xs ys show ?thesis by (auto simp: bound_to_def)
qed

text \<open>
  The hypotheses hold for exact arithmetic and a draw of a thousand zeros.
\<close>

theorem a_position_in_ndc_witness:
  "\<exists>arr w. a_position_data (\<lambda>x. x) (replicate 1000 0) = Inr arr \<and>
     notebook (\<lambda>src. True) (\<lambda>x. x) (replicate 1000 0) blank_context = Inr w \<and>
     attribs (program w) ''a_position'' = Some arr \<and> in_ndc arr \<and>
     list_all (\<lambda>x. - 1 \<le> x \<and> x \<le> 1) (linspace (\<lambda>x. x) (- 1) 1 1000) \<and>
     list_all (\<lambda>y. - 1 \<le> y \<and> y \<le> (1::real)) (replicate 1000 0)"
proof -
  have r: "float_rounding (\<lambda>x. x)" by (simp add: float_rounding_def mono_def)
  have u: "uniform_sample (- 1 / 2) (1 / 2) 1000 (replicate 1000 0)"
    by (simp add: uniform_sample_def list_all_iff)
  show ?thesis
    using a_position_in_ndc [of "\<lambda>x. x" "replicate 1000 0" "\<lambda>src. True" blank_context, OF r u]
    by simp
qed

text \<open>
  C3: a draw call under \<^verbatim>\<open>'line_strip'\<close> consumes the \<open>N\<close> bound vertices in buffer
  order and draws one segment between each vertex and the next, \<open>N - 1\<close> segments in
  all; each end point is the position the vertex shader returns.
\<close>

theorem line_strip_draws_consecutive_segments:
  assumes b: "bound_to (program w) arr"
  shows "\<exists>w'. on_draw [ev] w = Inr w' \<and>
           drawn (gl w') =
             map (\<lambda>i. [arr ! i @ [0, 1], arr ! Suc i @ [0, 1]]) [0..<length arr - 1] \<and>
           length (drawn (gl w')) = length arr - 1"
proof -
  have "line_strip (map (\<lambda>row. row @ [0, 1]) arr) =
      map (\<lambda>i. [arr ! i @ [0, 1], arr ! Suc i @ [0, 1]]) [0..<length arr - 1]"
    by (simp add: line_strip_nth [of "map (\<lambda>row. row @ [0, 1]) arr"])
  then show ?thesis unfolding on_draw_bound [OF b] by simp
qed

text \<open>
  Three vertices give two segments.
\<close>

theorem line_strip_draws_consecutive_segments_witness:
  "\<exists>w'. on_draw [EventV DrawEvent] example_world = Inr w' \<and>
     drawn (gl w') = [[[0, 0, 0, 1], [1 / 2, 1, 0, 1]], [[1 / 2, 1, 0, 1], [1, 0, 0, 1]]] \<and>
     length (drawn (gl w')) = 2"
proof -
  have b: "bound_to (program example_world) [[0, 0], [1 / 2, 1], [1, 0]]"
    by (simp add: bound_to_def example_world_def)
  have "[0..<length [[0, 0], [1 / 2, 1], [1, 0::real]] - 1] = [0, 1]"
    by (simp add: upt_rec)
  then show ?thesis
    using line_strip_draws_consecutive_segments [OF b, of "EventV DrawEvent"]
    by (simp del: on_draw.simps add: numeral_2_eq_2)
qed

text \<open>
  C4: the array bound to \<^verbatim>\<open>a_position\<close> is the column stack of the two
  one-dimensional arrays and has the shape \<open>(1000, 2)\<close>: a thousand rows of two floats.
\<close>

theorem a_position_shape:
  assumes u: "uniform_sample (- 1 / 2) (1 / 2) 1000 ys" and v: "valid vertex" "valid fragment"
  shows "\<exists>arr w. a_position_data rnd ys = Inr arr \<and>
           arr = map2 (\<lambda>x y. [x, y]) (linspace rnd (- 1) 1 1000) ys \<and> has_shape arr 1000 2 \<and>
           notebook valid rnd ys g0 = Inr w \<and> attribs (program w) ''a_position'' = Some arr"
proof -
  from u have n: "length ys = 1000" by (simp add: uniform_sample_def)
  from notebook_bound [OF v n, of rnd g0] obtain arr w
    where a: "a_position_data rnd ys = Inr arr" and s: "has_shape arr 1000 2"
      and w: "notebook valid rnd ys g0 = Inr w" and b: "bound_to (program w) arr" by blast
  from a have "arr = map2 (\<lambda>x y. [x, y]) (linspace rnd (- 1) 1 1000) ys"
    by (simp add: a_position_data_def np_c_def length_linspace n)
  with a s w b show ?thesis by (auto simp: bound_to_def)
qed

text \<open>
  The shape at exact arithmetic and a draw of a thousand zeros.
\<close>

theorem a_position_shape_witness:
  "\<exists>arr w. a_position_data (\<lambda>x. x) (replicate 1000 0) = Inr arr \<and>
     arr = map2 (\<lambda>x y. [x, y]) (linspace (\<lambda>x. x) (- 1) 1 1000) (replicate 1000 0) \<and>
     has_shape arr 1000 2 \<and>
     notebook (\<lambda>src. True) (\<lambda>x. x) (replicate 1000 0) blank_context = Inr w \<and>
     attribs (program w) ''a_position'' = Some arr"
proof -
  have u: "uniform_sample (- 1 / 2) (1 / 2) 1000 (replicate 1000 0)"
    by (simp add: uniform_sample_def list_all_iff)
  show ?thesis
    using a_position_shape [of "replicate 1000 0" "\<lambda>src. True" "\<lambda>x. x" blank_context, OF u]
    by simp
qed

text \<open>
  C5: the vertex shader declares \<^verbatim>\<open>attribute vec2 a_position\<close>, a type of two
  components, and the array of cell 6 has two columns, so binding it to a program of
  this vertex shader does not raise and binds the whole array; an array with a row of
  another length is refused.
\<close>

theorem binding_matches_declaration:
  assumes u: "uniform_sample (- 1 / 2) (1 / 2) 1000 ys" and p: "vert_src p = vertex"
  shows "map_of (attributes vertex) ''a_position'' = Some ''vec2'' \<and>
         components ''vec2'' = Some 2 \<and>
         (\<exists>arr. a_position_data rnd ys = Inr arr \<and> has_shape arr 1000 2 \<and>
            setitem p ''a_position'' arr =
              Inr (p\<lparr>attribs := (attribs p)(''a_position'' \<mapsto> arr)\<rparr>)) \<and>
         (\<not> list_all (\<lambda>row. length row = 2) arr' \<longrightarrow>
            setitem p ''a_position'' arr' = Inl ValueError)"
proof -
  have "length (linspace rnd (- 1) 1 1000) = length ys"
    using u by (simp add: length_linspace sample_length)
  from np_c_shape [OF this] obtain arr
    where a: "a_position_data rnd ys = Inr arr" and s: "has_shape arr 1000 2"
    by (auto simp: a_position_data_def length_linspace)
  from s have "setitem p ''a_position'' arr =
      Inr (p\<lparr>attribs := (attribs p)(''a_position'' \<mapsto> arr)\<rparr>)"
    by (intro setitem_a_position [OF p]) (simp add: has_shape_def)
  with a s show ?thesis
    by (auto simp: attributes_vertex components_def setitem_partial [OF p])
qed

text \<open>
  The binding on the freshly compiled program, and a refused array of three columns.
\<close>

theorem binding_matches_declaration_witness:
  "map_of (attributes vertex) ''a_position'' = Some ''vec2'' \<and>
   components ''vec2'' = Some 2 \<and>
   (\<exists>arr. a_position_data (\<lambda>x. x) (replicate 1000 0) = Inr arr \<and> has_shape arr 1000 2 \<and>
      setitem \<lparr>vert_src = vertex, frag_src = fragment, attribs = Map.empty\<rparr> ''a_position'' arr =
        Inr \<lparr>vert_src = vertex, frag_src = fragment, attribs = [''a_position'' \<mapsto> arr]\<rparr>) \<and>
   setitem \<lparr>vert_src = vertex, frag_src = fragment, attribs = Map.empty\<rparr> ''a_position''
     [[0, 0, 0], [1, 1, 1]] = Inl ValueError"
  using binding_matches_declaration
    [of "replicate 1000 0" "\<lparr>vert_src = vertex, frag_src = fragment, attribs = Map.empty\<rparr>"
      "\<lambda>x. x" "[[0, 0, 0], [1, 1, 1]]", OF example_sample]
  by simp

text \<open>
  C6: once the array is bound, no callback changes it: under every sequence of resize
  and draw events the run goes through with the program, and so the bound array,
  unchanged, and every draw event draws the line strip of the same thousand vertices.
\<close>

theorem buffer_immutable_after_upload:
  assumes u: "uniform_sample (- 1 / 2) (1 / 2) 1000 ys" and v: "valid vertex" "valid fragment"
  shows "\<exists>arr w. notebook valid rnd ys g0 = Inr w \<and>
           attribs (program w) ''a_position'' = Some arr \<and> length arr = 1000 \<and>
           (\<forall>es. \<exists>w'. run es w = Inr w' \<and> program w' = program w) \<and>
           (\<forall>es. \<exists>w'. run (es @ [DrawEvent]) w = Inr w' \<and>
              drawn (gl w') = line_strip (map (\<lambda>row. row @ [0, 1]) arr) \<and>
              last (commands (gl w')) = DrawArrays LineStrip 1000)"
proof -
  from notebook_bound [OF v sample_length [OF u], of rnd g0] obtain arr w
    where s: "has_shape arr 1000 2" and w: "notebook valid rnd ys g0 = Inr w"
      and b: "bound_to (program w) arr" by blast
  have 1: "\<exists>w'. run es w = Inr w' \<and> program w' = program w" for es
    using b by (rule run_program)
  have 2: "\<exists>w'. run (es @ [DrawEvent]) w = Inr w' \<and>
              drawn (gl w') = line_strip (map (\<lambda>row. row @ [0, 1]) arr) \<and>
              last (commands (gl w')) = DrawArrays LineStrip 1000" for es
  proof -
    from 1 [of es] obtain w1 where r: "run es w = Inr w1" and p: "program w1 = program w"
      by blast
    from b p have b1: "bound_to (program w1) arr" by simp
    have "run (es @ [DrawEvent]) w = on_draw [EventV DrawEvent] w1"
      by (simp add: run_append r split: sum.splits)
    then show ?thesis using s unfolding on_draw_bound [OF b1] by (simp add: has_shape_def)
  qed
  from w b s 1 2 show ?thesis by (auto simp: bound_to_def has_shape_def)
qed

text \<open>
  The notebook at exact arithmetic and a draw of a thousand zeros.
\<close>

theorem buffer_immutable_after_upload_witness:
  "\<exists>arr w. notebook (\<lambda>src. True) (\<lambda>x. x) (replicate 1000 0) blank_context = Inr w \<and>
     attribs (program w) ''a_position'' = Some arr \<and> length arr = 1000 \<and>
     (\<forall>es. \<exists>w'. run es w = Inr w' \<and> program w' = program w) \<and>
     (\<forall>es. \<exists>w'. run (es @ [DrawEvent]) w = Inr w' \<and>
        drawn (gl w') = line_strip (map (\<lambda>row. row @ [0, 1]) arr) \<and>
        last (commands (gl w')) = DrawArrays LineStrip 1000)"
  using buffer_immutable_after_upload
    [of "replicate 1000 0" "\<lambda>src. True" "\<lambda>x. x" blank_context, OF example_sample]
  by simp

text \<open>
  C7: \<^verbatim>\<open>gloo.Program\<close> receives the two literals of cells 3 and 4 character for
  character, and the program holds the same two texts after every sequence of events.
\<close>

theorem shader_sources_passed_unchanged:
  assumes u: "uniform_sample (- 1 / 2) (1 / 2) 1000 ys" and v: "valid vertex" "valid fragment"
  shows "Program valid vertex fragment =
           Inr \<lparr>vert_src = ''\<newline>attribute vec2 a_position;\<newline>void main (void)\<newline>{\<newline>    gl_Position = vec4(a_position, 0.0, 1.0);\<newline>}\<newline>'',
                frag_src = ''\<newline>void main()\<newline>{\<newline>    gl_FragColor = vec4(0.0, 0.0, 0.0, 1.0);\<newline>}\<newline>'',
                attribs = Map.empty\<rparr> \<and>
         (\<exists>w. notebook valid rnd ys g0 = Inr w \<and>
            vert_src (program w) = vertex \<and> frag_src (program w) = fragment \<and>
            (\<forall>es. \<exists>w'. run es w = Inr w' \<and>
               vert_src (program w') = vertex \<and> frag_src (program w') = fragment))"
proof -
  from notebook_bound [OF v sample_length [OF u], of rnd g0] obtain arr w
    where w: "notebook valid rnd ys g0 = Inr w" and b: "bound_to (program w) arr"
      and f: "frag_src (program w) = fragment" by blast
  have "\<exists>w'. run es w = Inr w' \<and> vert_src (program w') = vertex \<and>
          frag_src (program w') = fragment" for es
    using run_program [OF b, of es] b f by (auto simp: bound_to_def)
  moreover have "Program valid vertex fragment =
      Inr \<lparr>vert_src = vertex, frag_src = fragment, attribs = Map.empty\<rparr>"
    using v by (simp add: Program_def compile_check_def)
  ultimately show ?thesis using w b f
    by (auto simp: bound_to_def vertex_def [symmetric] fragment_def [symmetric])
qed

text \<open>
  The texts at a compiler that accepts every source.
\<close>

theorem shader_sources_passed_unchanged_witness:
  "Program (\<lambda>src. True) vertex fragment =
     Inr \<lparr>vert_src = ''\<newline>attribute vec2 a_position;\<newline>void main (void)\<newline>{\<newline>    gl_Position = vec4(a_position, 0.0, 1.0);\<newline>}\<newline>'',
          frag_src = ''\<newline>void main()\<newline>{\<newline>    gl_FragColor = vec4(0.0, 0.0, 0.0, 1.0);\<newline>}\<newline>'',
          attribs = Map.empty\<rparr> \<and>
   (\<exists>w. notebook (\<lambda>src. True) (\<lambda>x. x) (replicate 1000 0) blank_context = Inr w \<and>
      vert_src (program w) = vertex \<and> frag_src (program w) = fragment \<and>
      (\<forall>es. \<exists>w'. run es w = Inr w' \<and>
         vert_src (program w') = vertex \<and> frag_src (program w') = fragment))"
  using shader_sources_passed_unchanged
    [of "replicate 1000 0" "\<lambda>src. True" "\<lambda>x. x" blank_context, OF example_sample]
  by simp

text \<open>
  C8, as stated (\<^verbatim>\<open>on_resize(new_width, new_height)\<close> and \<^verbatim>\<open>on_draw()\<close>), fails:
  both functions are defined with the single parameter \<^verbatim>\<open>event\<close>, so a call with a
  width and a height, or with no argument, raises a \<^verbatim>\<open>TypeError\<close>.
\<close>

theorem callback_signatures_counterexample:
  "on_resize [IntV 800, IntV 600] example_world = Inl TypeError \<and>
   on_draw [] example_world = Inl TypeError"
  by simp

text \<open>
  C8, amended: each callback takes the event as its single argument. The resize
  callback reads the new width and height from the event's \<^verbatim>\<open>size\<close> and sets the
  viewport to \<open>(0, 0, width, height)\<close>; the draw callback does not read its argument; a
  call with any other number of arguments raises a \<^verbatim>\<open>TypeError\<close>.
\<close>

theorem callbacks_take_one_event:
  "(\<exists>w'. on_resize [EventV (ResizeEvent (width, height))] w = Inr w' \<and>
      viewport (gl w') = (0, 0, width, height) \<and> program w' = program w) \<and>
   on_draw [a] w = on_draw [b] w \<and>
   (length args \<noteq> 1 \<longrightarrow> on_resize args w = Inl TypeError \<and> on_draw args w = Inl TypeError)"
  by (simp add: on_resize_arity on_draw_arity set_viewport_def)

text \<open>
  A resize to 800 by 600, two draw calls with different arguments, and two calls
  without an argument.
\<close>

theorem callbacks_take_one_event_witness:
  "(\<exists>w'. on_resize [EventV (ResizeEvent (800, 600))] example_world = Inr w' \<and>
      viewport (gl w') = (0, 0, 800, 600) \<and> program w' = program example_world) \<and>
   on_draw [EventV DrawEvent] example_world = on_draw [IntV 7] example_world \<and>
   on_resize [] example_world = Inl TypeError \<and> on_draw [] example_world = Inl TypeError"
  using callbacks_take_one_event
    [of 800 600 example_world "EventV DrawEvent" "IntV 7" "[]"]
  by (simp del: on_resize.simps on_draw.simps)

text \<open>
  C9: the vertex stage passes the two coordinates through: for the vertex \<open>(x, y)\<close>
  supplied in \<open>a_position\<close> the shader returns the position \<open>(x, y, 0, 1)\<close>.
\<close>

theorem vertex_main_passes_through: "vertex_main [x, y] = Some [x, y, 0, 1]"
  by (simp add: vertex_main_def vec4_def)

text \<open>
  C10: every invocation of \<^verbatim>\<open>on_draw\<close> issues the clear to opaque white and then the
  draw call, and nothing else: after any sequence of events every draw call of the
  command history comes directly after such a clear, and a frame holds a white
  background and the 999 segments of this draw only.
\<close>

theorem clear_precedes_draw:
  assumes u: "uniform_sample (- 1 / 2) (1 / 2) 1000 ys" and v: "valid vertex" "valid fragment"
    and h: "draws_follow_clear (commands g0)"
  shows "\<exists>w. notebook valid rnd ys g0 = Inr w \<and>
           (\<forall>es. \<exists>w1 w2. run es w = Inr w1 \<and> draws_follow_clear (commands (gl w1)) \<and>
              on_draw [ev] w1 = Inr w2 \<and>
              commands (gl w2) =
                commands (gl w1) @ [Clear (1, 1, 1, 1), DrawArrays LineStrip 1000] \<and>
              background (gl w2) = (1, 1, 1, 1) \<and> length (drawn (gl w2)) = 999)"
proof -
  from notebook_bound [OF v sample_length [OF u], of rnd g0] obtain arr w
    where s: "has_shape arr 1000 2" and w: "notebook valid rnd ys g0 = Inr w"
      and b: "bound_to (program w) arr" and g: "gl w = g0" by blast
  have "\<exists>w1 w2. run es w = Inr w1 \<and> draws_follow_clear (commands (gl w1)) \<and>
          on_draw [ev] w1 = Inr w2 \<and>
          commands (gl w2) =
            commands (gl w1) @ [Clear (1, 1, 1, 1), DrawArrays LineStrip 1000] \<and>
          background (gl w2) = (1, 1, 1, 1) \<and> length (drawn (gl w2)) = 999" for es
  proof -
    from h g have "draws_follow_clear (commands (gl w))" by simp
    from run_history [OF b this, of es] obtain w1
      where r: "run es w = Inr w1" and p: "program w1 = program w"
        and h1: "draws_follow_clear (commands (gl w1))" by blast
    from b p have b1: "bound_to (program w1) arr" by simp
    define w2 where "w2 =
      w1\<lparr>gl := (gl w1)\<lparr>background := (1, 1, 1, 1),
                 drawn := line_strip (map (\<lambda>row. row @ [0, 1]) arr),
                 commands := commands (gl w1) @
                   [Clear (1, 1, 1, 1), DrawArrays LineStrip (length arr)]\<rparr>\<rparr>"
    have d: "on_draw [ev] w1 = Inr w2" unfolding w2_def by (rule on_draw_bound [OF b1])
    from s have c: "commands (gl w2) =
        commands (gl w1) @ [Clear (1, 1, 1, 1), DrawArrays LineStrip 1000]"
      by (simp add: w2_def has_shape_def)
    have k: "background (gl w2) = (1, 1, 1, 1)" by (simp add: w2_def)
    from s have n: "length (drawn (gl w2)) = 999"
      by (simp add: w2_def line_strip_nth has_shape_def)
    from r h1 d c k n show ?thesis by blast
  qed
  with w show ?thesis by blast
qed

text \<open>
  The notebook on a canvas with an empty command history.
\<close>

theorem clear_precedes_draw_witness:
  "\<exists>w. notebook (\<lambda>src. True) (\<lambda>x. x) (replicate 1000 0) blank_context = Inr w \<and>
     (\<forall>es. \<exists>w1 w2. run es w = Inr w1 \<and> draws_follow_clear (commands (gl w1)) \<and>
        on_draw [EventV DrawEvent] w1 = Inr w2 \<and>
        commands (gl w2) =
          commands (gl w1) @ [Clear (1, 1, 1, 1), DrawArrays LineStrip 1000] \<and>
        background (gl w2) = (1, 1, 1, 1) \<and> length (drawn (gl w2)) = 999)"
proof -
  have h: "draws_follow_clear (commands blank_context)" by (simp add: blank_context_def)
  show ?thesis
    using clear_precedes_draw
      [of "replicate 1000 0" "\<lambda>src. True" blank_context "\<lambda>x. x" "EventV DrawEvent",
       OF example_sample _ _ h]
    by (simp del: on_draw.simps)
qed

end
